theory Spec2Isabelle
  imports Complex_Main
begin

section \<open>Double-precision arithmetic\<close>

text \<open>
  Every number of the program is a C++ \<open>double\<close>. The operations on doubles that the
  program uses are taken as a parameter: a structure \<open>A\<close> giving addition, subtraction,
  multiplication, division, negation and square root on the carrier \<open>'a\<close>, the conversion
  of an \<open>int\<close> to a double (\<open>dof_int\<close>) and the value of a decimal literal (\<open>dlit\<close>).
  Nothing is assumed about them, so what is proved below holds for binary64 with any
  rounding, and for its infinities and NaNs.
\<close>

record 'a arith =
  dadd :: "'a \<Rightarrow> 'a \<Rightarrow> 'a"
  dsub :: "'a \<Rightarrow> 'a \<Rightarrow> 'a"
  dmul :: "'a \<Rightarrow> 'a \<Rightarrow> 'a"
  ddiv :: "'a \<Rightarrow> 'a \<Rightarrow> 'a"
  dneg :: "'a \<Rightarrow> 'a"
  dsqrt :: "'a \<Rightarrow> 'a"
  dof_int :: "int \<Rightarrow> 'a"
  dlit :: "rat \<Rightarrow> 'a"

section \<open>The glm vector operations used by main.cpp\<close>

text \<open>
  \<open>vec2\<close> is \<open>glm::highp_dvec2\<close>: two doubles \<open>x\<close> and \<open>y\<close>. The operators of glm act
  on each component; \<open>dot\<close> multiplies componentwise and adds \<open>x\<close> and \<open>y\<close>;
  \<open>inversesqrt x\<close> is \<open>1 / sqrt x\<close>; \<open>normalize v\<close> is \<open>v * inversesqrt (dot v v)\<close>;
  \<open>length2 v\<close> is \<open>dot v v\<close>; \<open>length v\<close> is \<open>sqrt (dot v v)\<close> and
  \<open>distance p0 p1\<close> is \<open>length (p1 - p0)\<close>.
\<close>

datatype 'a vec2 = Vec2 (vec_x: 'a) (vec_y: 'a)

definition vadd :: "'a arith \<Rightarrow> 'a vec2 \<Rightarrow> 'a vec2 \<Rightarrow> 'a vec2" where
  "vadd A a b = Vec2 (dadd A (vec_x a) (vec_x b)) (dadd A (vec_y a) (vec_y b))"

definition vsub :: "'a arith \<Rightarrow> 'a vec2 \<Rightarrow> 'a vec2 \<Rightarrow> 'a vec2" where
  "vsub A a b = Vec2 (dsub A (vec_x a) (vec_x b)) (dsub A (vec_y a) (vec_y b))"

definition vmul :: "'a arith \<Rightarrow> 'a vec2 \<Rightarrow> 'a vec2 \<Rightarrow> 'a vec2" where
  "vmul A a b = Vec2 (dmul A (vec_x a) (vec_x b)) (dmul A (vec_y a) (vec_y b))"

definition vneg :: "'a arith \<Rightarrow> 'a vec2 \<Rightarrow> 'a vec2" where
  "vneg A v = Vec2 (dneg A (vec_x v)) (dneg A (vec_y v))"

definition vscale :: "'a arith \<Rightarrow> 'a vec2 \<Rightarrow> 'a \<Rightarrow> 'a vec2" where
  \<comment> \<open>\<open>v * scalar\<close>\<close>
  "vscale A v s = Vec2 (dmul A (vec_x v) s) (dmul A (vec_y v) s)"

definition vdivs :: "'a arith \<Rightarrow> 'a vec2 \<Rightarrow> 'a \<Rightarrow> 'a vec2" where
  \<comment> \<open>\<open>v / scalar\<close>\<close>
  "vdivs A v s = Vec2 (ddiv A (vec_x v) s) (ddiv A (vec_y v) s)"

definition glm_dot :: "'a arith \<Rightarrow> 'a vec2 \<Rightarrow> 'a vec2 \<Rightarrow> 'a" where
  "glm_dot A a b = (let tmp = vmul A a b in dadd A (vec_x tmp) (vec_y tmp))"

definition glm_inversesqrt :: "'a arith \<Rightarrow> 'a \<Rightarrow> 'a" where
  "glm_inversesqrt A x = ddiv A (dlit A 1) (dsqrt A x)"

definition glm_normalize :: "'a arith \<Rightarrow> 'a vec2 \<Rightarrow> 'a vec2" where
  "glm_normalize A v = vscale A v (glm_inversesqrt A (glm_dot A v v))"

definition glm_length2 :: "'a arith \<Rightarrow> 'a vec2 \<Rightarrow> 'a" where
  "glm_length2 A v = glm_dot A v v"

definition glm_length :: "'a arith \<Rightarrow> 'a vec2 \<Rightarrow> 'a" where
  "glm_length A v = dsqrt A (glm_dot A v v)"

definition glm_distance :: "'a arith \<Rightarrow> 'a vec2 \<Rightarrow> 'a vec2 \<Rightarrow> 'a" where
  "glm_distance A p0 p1 = glm_length A (vsub A p1 p0)"

section \<open>Constants and data of main.cpp\<close>

definition delta_time :: "'a arith \<Rightarrow> 'a" where
  "delta_time A = dlit A 3600"

definition number_steps :: nat where
  "number_steps = 24 * 365"

definition gravity_constant :: "'a arith \<Rightarrow> 'a" where
  "gravity_constant A = dlit A (6674 / 10 ^ 14)"

record 'a Object =
  name :: string
  mass :: 'a
  position :: "'a vec2"
  velocity :: "'a vec2"
  force :: "'a vec2"

definition METHOD_NAIVE :: string where
  "METHOD_NAIVE = ''naive''"

definition METHOD_SYMPLECTIC :: string where
  "METHOD_SYMPLECTIC = ''symplectic''"

text \<open>
  The initializer list of \<open>objects\<close> gives name, mass, position and velocity of the two
  bodies and leaves \<open>force\<close> to the default constructor of \<open>vec2\<close>; its content is the
  parameter \<open>f0\<close>. The literal \<open>-12.5\<close> is the negation of the literal \<open>12.5\<close>.
\<close>

definition initial_objects :: "'a arith \<Rightarrow> 'a vec2 \<Rightarrow> 'a Object list" where
  "initial_objects A f0 =
    [\<lparr>name = ''Earth'', mass = dlit A (59722 * 10 ^ 20),
        position = Vec2 (dlit A 0) (dlit A 0),
        velocity = Vec2 (dlit A 0) (dneg A (dlit A (25 / 2))), force = f0\<rparr>,
     \<lparr>name = ''Moon'', mass = dlit A (7342 * 10 ^ 19),
        position = Vec2 (dlit A 384405000) (dlit A 0),
        velocity = Vec2 (dlit A 0) (dlit A 1022), force = f0\<rparr>]"

section \<open>The gravity loop (main.cpp, lines 51 to 66)\<close>

text \<open>
  The body of the inner loop for the pair \<open>(i, j)\<close>: it reads the positions and masses of
  the two bodies and overwrites their \<open>force\<close>, first of body \<open>i\<close>, then of body \<open>j\<close> with
  the negation of the force just stored in body \<open>i\<close>.
\<close>

definition pair_force :: "nat \<Rightarrow> nat \<Rightarrow> 'a arith \<Rightarrow> 'a Object list \<Rightarrow> 'a Object list" where
  "pair_force i j A objects =
    (let vector = vsub A (position (objects ! j)) (position (objects ! i));
         direction = glm_normalize A vector;
         distance_sq = glm_length2 A vector;
         force_s = ddiv A (dmul A (gravity_constant A)
                     (dmul A (mass (objects ! i)) (mass (objects ! j)))) distance_sq;
         objects1 = objects[i := (objects ! i)\<lparr>force := vscale A direction force_s\<rparr>]
     in objects1[j := (objects1 ! j)\<lparr>force := vneg A (force (objects1 ! i))\<rparr>])"

lemma length_pair_force [simp]: "length (pair_force i j A objects) = length objects"
  by (simp add: pair_force_def Let_def)

text \<open>\<open>for (int j = ...; j < objects.size(); j++)\<close>, entered with \<open>j = i + 1\<close>.\<close>

function force_inner :: "nat \<Rightarrow> nat \<Rightarrow> 'a arith \<Rightarrow> 'a Object list \<Rightarrow> 'a Object list" where
  "force_inner i j A objects =
    (if j < length objects then force_inner i (j + 1) A (pair_force i j A objects)
     else objects)"
  by pat_completeness auto
termination
  by (relation "measure (\<lambda>(i, j, A, objects). length objects - j)") auto

declare force_inner.simps [simp del]

lemma length_force_inner [simp]: "length (force_inner i j A objects) = length objects"
  by (induction i j A objects rule: force_inner.induct)
     (subst force_inner.simps, simp)

text \<open>\<open>for (int i = 0; i < objects.size(); i++)\<close>.\<close>

function force_outer :: "nat \<Rightarrow> 'a arith \<Rightarrow> 'a Object list \<Rightarrow> 'a Object list" where
  "force_outer i A objects =
    (if i < length objects then force_outer (i + 1) A (force_inner i (i + 1) A objects)
     else objects)"
  by pat_completeness auto
termination
  by (relation "measure (\<lambda>(i, A, objects). length objects - i)") auto

declare force_outer.simps [simp del]

definition compute_forces :: "'a arith \<Rightarrow> 'a Object list \<Rightarrow> 'a Object list" where
  "compute_forces A objects = force_outer 0 A objects"

section \<open>The integration loop (main.cpp, lines 69 to 89)\<close>

text \<open>
  The statement \<open>if (method == METHOD_NAIVE) ... else if (method == METHOD_SYMPLECTIC) ...\<close>
  of lines 78 to 85. The result is the value assigned to \<open>new_position\<close>, or \<open>None\<close> when
  neither branch runs and \<open>new_position\<close> stays as its declaration \<open>vec2 new_position;\<close>
  left it.
\<close>

definition assign_new_position ::
    "string \<Rightarrow> 'a arith \<Rightarrow> 'a Object \<Rightarrow> 'a vec2 \<Rightarrow> 'a vec2 \<Rightarrow> 'a vec2 option" where
  "assign_new_position method A obj old_velocity new_velocity =
    (if method = METHOD_NAIVE
       then Some (vadd A (position obj) (vscale A old_velocity (delta_time A)))
     else if method = METHOD_SYMPLECTIC
       then Some (vadd A (position obj) (vscale A new_velocity (delta_time A)))
     else None)"

text \<open>
  The body of the loop for one body. \<open>old_velocity\<close> is a reference to the body's velocity;
  it is read before the velocity is overwritten. \<open>junk\<close> is the content of a \<open>new_position\<close>
  that was never assigned.
\<close>

definition integrate_object :: "string \<Rightarrow> 'a vec2 \<Rightarrow> 'a arith \<Rightarrow> 'a Object \<Rightarrow> 'a Object" where
  "integrate_object method junk A obj =
    (let acceleration = vdivs A (force obj) (mass obj);
         old_velocity = velocity obj;
         new_velocity = vadd A old_velocity (vscale A acceleration (delta_time A));
         new_position =
           (case assign_new_position method A obj old_velocity new_velocity of
              Some p \<Rightarrow> p
            | None \<Rightarrow> junk)
     in obj\<lparr>velocity := new_velocity, position := new_position\<rparr>)"

definition integrate_at ::
    "string \<Rightarrow> (nat \<Rightarrow> 'a vec2) \<Rightarrow> 'a arith \<Rightarrow> nat \<Rightarrow> 'a Object list \<Rightarrow> 'a Object list" where
  "integrate_at method junk A i objects =
    objects[i := integrate_object method (junk i) A (objects ! i)]"

lemma length_integrate_at [simp]: "length (integrate_at method junk A i objects) = length objects"
  by (simp add: integrate_at_def)

text \<open>\<open>for (int i = 0; i < objects.size(); i++)\<close>.\<close>

function integrate_loop ::
    "nat \<Rightarrow> string \<Rightarrow> (nat \<Rightarrow> 'a vec2) \<Rightarrow> 'a arith \<Rightarrow> 'a Object list \<Rightarrow> 'a Object list" where
  "integrate_loop i method junk A objects =
    (if i < length objects
       then integrate_loop (i + 1) method junk A (integrate_at method junk A i objects)
     else objects)"
  by pat_completeness auto
termination
  by (relation "measure (\<lambda>(i, method, junk, A, objects). length objects - i)") auto

declare integrate_loop.simps [simp del]

section \<open>Output (main.cpp, lines 92 to 95)\<close>

text \<open>
  What one statement \<open>std::cout << ... << std::endl\<close> sends to the stream, operand by
  operand: doubles, the string \<open>"\t"\<close> and \<open>std::endl\<close>. The conversion of a double to
  text is the stream's and is not part of this model.
\<close>

datatype 'a out_item = Dbl 'a | Str string | Endl

definition TAB :: string where
  "TAB = [CHR 0x09]"

text \<open>
  \<open>objects[0]\<close> and \<open>objects[1]\<close> are read without a range check; \<open>objects\<close> has two
  elements throughout \<open>main\<close>.
\<close>

definition show_line :: "nat \<Rightarrow> 'a arith \<Rightarrow> 'a Object list \<Rightarrow> 'a out_item list" where
  "show_line step A objects =
    [Dbl (dmul A (dof_int A (int step)) (delta_time A)), Str TAB,
     Dbl (vec_x (position (objects ! 0))), Str TAB,
     Dbl (vec_y (position (objects ! 0))), Str TAB,
     Dbl (vec_x (position (objects ! 1))), Str TAB,
     Dbl (vec_y (position (objects ! 1))), Str TAB,
     Dbl (glm_distance A (position (objects ! 0)) (position (objects ! 1))), Endl]"

section \<open>The simulation loop and main\<close>

text \<open>
  One iteration of the loop over \<open>step\<close>: gravity, integration, output. \<open>junk step i\<close> is
  the content of an unassigned \<open>new_position\<close> for body \<open>i\<close> in this iteration.
\<close>

definition step_body ::
    "nat \<Rightarrow> string \<Rightarrow> (nat \<Rightarrow> nat \<Rightarrow> 'a vec2) \<Rightarrow> 'a arith \<Rightarrow> 'a Object list
      \<Rightarrow> 'a Object list \<times> 'a out_item list" where
  "step_body step method junk A objects =
    (let objects1 = compute_forces A objects;
         objects2 = integrate_loop 0 method (junk step) A objects1
     in (objects2, show_line step A objects2))"

text \<open>\<open>for (int step = 0; step < number_steps; step++)\<close>; \<open>out\<close> is what \<open>std::cout\<close> received.\<close>

function main_loop ::
    "nat \<Rightarrow> string \<Rightarrow> (nat \<Rightarrow> nat \<Rightarrow> 'a vec2) \<Rightarrow> 'a arith \<Rightarrow> 'a Object list
      \<Rightarrow> 'a out_item list list \<Rightarrow> 'a Object list \<times> 'a out_item list list" where
  "main_loop step method junk A objects out =
    (if step < number_steps
       then (case step_body step method junk A objects of
               (objects', line) \<Rightarrow> main_loop (step + 1) method junk A objects' (out @ [line]))
     else (objects, out))"
  by pat_completeness auto
termination
  by (relation "measure (\<lambda>(step, method, junk, A, objects, out). number_steps - step)") auto

declare main_loop.simps [simp del]

record 'a process =
  exit_status :: int
  cout :: "'a out_item list list"
  cerr :: "string list"

text \<open>\<open>argc\<close> is the length of \<open>argv\<close>; \<open>argv[0]\<close> is the name of the program.\<close>

definition main ::
    "'a arith \<Rightarrow> 'a vec2 \<Rightarrow> (nat \<Rightarrow> nat \<Rightarrow> 'a vec2) \<Rightarrow> string list \<Rightarrow> 'a process" where
  "main A f0 junk argv =
    (if length argv \<noteq> 2
       then \<lparr>exit_status = 1, cout = [],
             cerr = [''Give as argument to the program the integration method: naive or symplectic'']\<rparr>
     else let method = argv ! 1 in
       if method \<noteq> METHOD_NAIVE \<and> method \<noteq> METHOD_SYMPLECTIC
         then \<lparr>exit_status = 1, cout = [],
               cerr = [''The integration method can only be: naive or symplectic'']\<rparr>
       else \<lparr>exit_status = 0,
             cout = snd (main_loop 0 method junk A (initial_objects A f0) []),
             cerr = []\<rparr>)"

text \<open>
  The bodies after \<open>n\<close> iterations of the simulation loop that starts at step \<open>s\<close>:
  the iterations \<open>s, s + 1, ..., s + n - 1\<close>.
\<close>

fun objects_after ::
    "nat \<Rightarrow> nat \<Rightarrow> string \<Rightarrow> (nat \<Rightarrow> nat \<Rightarrow> 'a vec2) \<Rightarrow> 'a arith \<Rightarrow> 'a Object list
      \<Rightarrow> 'a Object list" where
  "objects_after s 0 method junk A objects = objects"
| "objects_after s (Suc n) method junk A objects =
     objects_after (Suc s) n method junk A (fst (step_body s method junk A objects))"

section \<open>An arithmetic to evaluate the program\<close>

text \<open>
  One instance of the parameter \<open>A\<close>, used to run the definitions on concrete bodies:
  the reals with the special values of binary64, \<open>+\<infinity>\<close>, \<open>-\<infinity>\<close> and NaN, and their
  rules (\<open>x / 0\<close> is infinite for \<open>x \<noteq> 0\<close>, \<open>0 / 0\<close>, \<open>0 * \<infinity>\<close> and \<open>\<infinity> - \<infinity>\<close> are NaN,
  NaN propagates). Zero is unsigned and counts as \<open>+0\<close>. Finite results are exact: the
  instance does not round, and agrees with binary64 where every intermediate result is
  representable.
\<close>

datatype xreal = Fin real | PInf | NInf | NaN

definition xinf :: "bool \<Rightarrow> xreal" where
  "xinf negative = (if negative then NInf else PInf)"

fun xneg :: "xreal \<Rightarrow> xreal" where
  "xneg (Fin a) = Fin (- a)"
| "xneg PInf = NInf"
| "xneg NInf = PInf"
| "xneg NaN = NaN"

fun xadd :: "xreal \<Rightarrow> xreal \<Rightarrow> xreal" where
  "xadd NaN b = NaN"
| "xadd a NaN = NaN"
| "xadd (Fin a) (Fin b) = Fin (a + b)"
| "xadd PInf NInf = NaN"
| "xadd NInf PInf = NaN"
| "xadd (Fin a) b = b"
| "xadd a b = a"

definition xsub :: "xreal \<Rightarrow> xreal \<Rightarrow> xreal" where
  "xsub a b = xadd a (xneg b)"

fun xmul :: "xreal \<Rightarrow> xreal \<Rightarrow> xreal" where
  "xmul NaN b = NaN"
| "xmul a NaN = NaN"
| "xmul (Fin a) (Fin b) = Fin (a * b)"
| "xmul (Fin a) PInf = (if a = 0 then NaN else xinf (a < 0))"
| "xmul (Fin a) NInf = (if a = 0 then NaN else xinf (0 < a))"
| "xmul PInf (Fin b) = (if b = 0 then NaN else xinf (b < 0))"
| "xmul NInf (Fin b) = (if b = 0 then NaN else xinf (0 < b))"
| "xmul PInf PInf = PInf"
| "xmul NInf NInf = PInf"
| "xmul PInf NInf = NInf"
| "xmul NInf PInf = NInf"

fun xdiv :: "xreal \<Rightarrow> xreal \<Rightarrow> xreal" where
  "xdiv NaN b = NaN"
| "xdiv a NaN = NaN"
| "xdiv (Fin a) (Fin b) =
     (if b = 0 then (if a = 0 then NaN else xinf (a < 0)) else Fin (a / b))"
| "xdiv (Fin a) b = Fin 0"
| "xdiv PInf (Fin b) = xinf (b < 0)"
| "xdiv NInf (Fin b) = xinf (0 \<le> b)"
| "xdiv a b = NaN"

fun xsqrt :: "xreal \<Rightarrow> xreal" where
  "xsqrt (Fin a) = (if a < 0 then NaN else Fin (sqrt a))"
| "xsqrt PInf = PInf"
| "xsqrt a = NaN"

definition xarith :: "xreal arith" where
  "xarith = \<lparr>dadd = xadd, dsub = xsub, dmul = xmul, ddiv = xdiv, dneg = xneg,
     dsqrt = xsqrt, dof_int = (\<lambda>n. Fin (of_int n)), dlit = (\<lambda>q. Fin (of_rat q))\<rparr>"

section \<open>The text of a double on the output stream\<close>

text \<open>
  \<open>main\<close> writes every number with \<open>operator<<\<close> of \<open>std::cout\<close> and never changes the
  state of the stream (no \<open>std::setprecision\<close>, \<open>std::fixed\<close> or \<open>std::scientific\<close>). The
  conversion is that of the stream library, as its documentation gives it: with no
  floating-point format flag set the number is converted as \<open>printf\<close> does for \<open>%g\<close>, with the
  precision of the stream, which is 6 unless it is set. For \<open>%g\<close> with precision 6 the value
  is rounded to six significant decimal digits \<open>d.ddddd\<close> with a decimal exponent \<open>X\<close>; for
  \<open>-4 \<le> X < 6\<close> it is written in fixed notation with \<open>5 - X\<close> digits after the point,
  otherwise as \<open>d.ddddde\<plusminus>XX\<close> with at least two exponent digits; trailing zeros of the
  fraction are removed, and the point with them when no fraction is left.

  The conversion is defined on the value of a double: a real number, an infinity or NaN.
  The rounding is to nearest, ties to even. The sign of a zero and of a NaN, which the
  text of a binary64 value shows (\<open>-0\<close>, \<open>-nan\<close>), is not part of the value.
\<close>

text \<open>The nearest integer, the even one of two that are equally near.\<close>

definition round_half_even :: "real \<Rightarrow> int" where
  "round_half_even x =
    (let f = \<lfloor>x\<rfloor>; d = x - of_int f
     in if d < 1 / 2 then f else if 1 / 2 < d then f + 1 else if even f then f else f + 1)"

text \<open>
  For \<open>v > 0\<close>: the six digits \<open>m\<close> (\<open>100000 \<le> m < 1000000\<close>) and the decimal exponent \<open>X\<close> of
  \<open>v\<close> rounded to six significant digits, which is \<open>m * 10\<^sup>X\<^sup>-\<^sup>5\<close>. When the rounding
  carries to \<open>1000000\<close> the digits are \<open>100000\<close> and the exponent is one more. \<open>round6 v\<close> is
  the rounded value.
\<close>

definition sig6 :: "real \<Rightarrow> int \<times> int" where
  "sig6 v =
    (let e = \<lfloor>log 10 v\<rfloor>; m = round_half_even (v * 10 powr (5 - of_int e))
     in if m = 1000000 then (100000, e + 1) else (m, e))"

definition round6 :: "real \<Rightarrow> real" where
  "round6 v =
    (if v = 0 then 0
     else case sig6 \<bar>v\<bar> of (m, X) \<Rightarrow> sgn v * (of_int m * 10 powr (of_int X - 5)))"

text \<open>
  \<open>digits k n\<close> are the \<open>k\<close> low decimal digits of \<open>n\<close>, \<open>show_nat n\<close> is \<open>n\<close> in decimal
  without leading zeros, and \<open>fraction s\<close> is the decimal point followed by the digits \<open>s\<close>
  without their trailing zeros, or nothing when all of them are zero.
\<close>

definition digit :: "nat \<Rightarrow> char" where
  "digit d = ''0123456789'' ! d"

fun digits :: "nat \<Rightarrow> nat \<Rightarrow> string" where
  "digits 0 n = []"
| "digits (Suc k) n = digits k (n div 10) @ [digit (n mod 10)]"

function show_nat :: "nat \<Rightarrow> string" where
  "show_nat n = (if n < 10 then [digit n] else show_nat (n div 10) @ [digit (n mod 10)])"
  by pat_completeness auto
termination
  by (relation "measure (\<lambda>n. n)") auto

declare show_nat.simps [simp del]

definition fraction :: "string \<Rightarrow> string" where
  "fraction s =
    (let t = rev (dropWhile (\<lambda>c. c = CHR ''0'') (rev s))
     in if t = [] then [] else CHR ''.'' # t)"

text \<open>The text of \<open>m * 10\<^sup>X\<^sup>-\<^sup>5\<close>: fixed notation for \<open>-4 \<le> X < 6\<close>, else with an exponent.\<close>

definition format_sig :: "int \<times> int \<Rightarrow> string" where
  "format_sig mX =
    (case mX of (m, X) \<Rightarrow>
      if - 4 \<le> X \<and> X < 6
      then (let p = nat (5 - X)
            in show_nat (nat m div 10 ^ p) @ fraction (digits p (nat m mod 10 ^ p)))
      else digits 1 (nat m div 100000) @ fraction (digits 5 (nat m mod 100000)) @ ''e'' @
           (if X < 0 then ''-'' else ''+'') @
           (if \<bar>X\<bar> < 10 then digits 2 (nat \<bar>X\<bar>) else show_nat (nat \<bar>X\<bar>)))"

definition format_g :: "real \<Rightarrow> string" where
  "format_g v =
    (if v = 0 then ''0'' else (if v < 0 then ''-'' else []) @ format_sig (sig6 \<bar>v\<bar>))"

fun ostream_double :: "xreal \<Rightarrow> string" where
  "ostream_double (Fin v) = format_g v"
| "ostream_double PInf = ''inf''"
| "ostream_double NInf = ''-inf''"
| "ostream_double NaN = ''nan''"

text \<open>A value rounded to six significant decimal digits.\<close>

fun xround6 :: "xreal \<Rightarrow> xreal" where
  "xround6 (Fin v) = Fin (round6 v)"
| "xround6 PInf = PInf"
| "xround6 NInf = NInf"
| "xround6 NaN = NaN"

text \<open>
  The text of one output statement: every double by the conversion above, applied to its
  value \<open>val v\<close>; strings as they are; \<open>std::endl\<close> as a newline.
\<close>

fun render_item :: "('a \<Rightarrow> xreal) \<Rightarrow> 'a out_item \<Rightarrow> string" where
  "render_item val (Dbl v) = ostream_double (val v)"
| "render_item val (Str s) = s"
| "render_item val Endl = [CHR 0x0A]"

definition render :: "('a \<Rightarrow> xreal) \<Rightarrow> 'a out_item list \<Rightarrow> string" where
  "render val line = concat (map (render_item val) line)"

text \<open>In the arithmetic \<open>xarith\<close> a double is its own value.\<close>

definition xvalue :: "xreal \<Rightarrow> xreal" where
  "xvalue v = v"

text \<open>Bodies and uninitialised contents for the evaluations below.\<close>

definition nan_junk :: "nat \<Rightarrow> nat \<Rightarrow> xreal vec2" where
  "nan_junk step i = Vec2 NaN NaN"

definition zero_junk :: "nat \<Rightarrow> nat \<Rightarrow> xreal vec2" where
  "zero_junk step i = Vec2 (Fin 0) (Fin 0)"

definition sample_objects :: "xreal Object list" where
  "sample_objects =
    [\<lparr>name = ''a'', mass = Fin 1, position = Vec2 (Fin 0) (Fin 0),
        velocity = Vec2 (Fin 0) (Fin 1), force = Vec2 NaN NaN\<rparr>,
     \<lparr>name = ''b'', mass = Fin (10 ^ 14), position = Vec2 (Fin 2) (Fin 0),
        velocity = Vec2 (Fin 0) (Fin 0), force = Vec2 NaN NaN\<rparr>]"

section \<open>Auxiliary lemmas\<close>

subsection \<open>The gravity loop writes forces only\<close>

lemma map_update_same:
  assumes "\<And>x. f (g x) = f x"
  shows "map f (xs[i := g (xs ! i)]) = map f xs"
proof (cases "i < length xs")
  case True
  then show ?thesis
    by (simp add: map_update assms list_update_same_conv)
next
  case False
  then have "xs[i := g (xs ! i)] = xs" by (simp add: list_update_beyond)
  then show ?thesis by simp
qed

lemma pair_force_keeps:
  assumes "\<And>(x::'a Object) v. f (x\<lparr>force := v\<rparr>) = f x"
  shows "map f (pair_force i j A objects) = map f objects"
proof -
  define objects1 where
    "objects1 = objects[i := (objects ! i)\<lparr>force := vscale A (glm_normalize A (vsub A (position (objects ! j)) (position (objects ! i))))
       (ddiv A (dmul A (gravity_constant A) (dmul A (mass (objects ! i)) (mass (objects ! j))))
          (glm_length2 A (vsub A (position (objects ! j)) (position (objects ! i)))))\<rparr>]"
  have 1: "map f objects1 = map f objects"
    unfolding objects1_def by (rule map_update_same) (rule assms)
  have "pair_force i j A objects = objects1[j := (objects1 ! j)\<lparr>force := vneg A (force (objects1 ! i))\<rparr>]"
    by (simp add: pair_force_def Let_def objects1_def)
  moreover have "map f (objects1[j := (objects1 ! j)\<lparr>force := vneg A (force (objects1 ! i))\<rparr>]) = map f objects1"
    by (rule map_update_same) (rule assms)
  ultimately show ?thesis using 1 by simp
qed

lemma force_inner_keeps:
  assumes "\<And>(x::'a Object) v. f (x\<lparr>force := v\<rparr>) = f x"
  shows "map f (force_inner i j A objects) = map f objects"
proof (induction i j A objects rule: force_inner.induct)
  case (1 i j A objects)
  show ?case
  proof (cases "j < length objects")
    case True
    then have "force_inner i j A objects = force_inner i (j + 1) A (pair_force i j A objects)"
      by (subst force_inner.simps) simp
    with 1 True show ?thesis by (simp add: pair_force_keeps [of f, OF assms])
  next
    case False
    then show ?thesis by (subst force_inner.simps) simp
  qed
qed

lemma force_outer_keeps:
  assumes "\<And>(x::'a Object) v. f (x\<lparr>force := v\<rparr>) = f x"
  shows "map f (force_outer i A objects) = map f objects"
proof (induction i A objects rule: force_outer.induct)
  case (1 i A objects)
  show ?case
  proof (cases "i < length objects")
    case True
    then have "force_outer i A objects = force_outer (i + 1) A (force_inner i (i + 1) A objects)"
      by (subst force_outer.simps) simp
    with 1 True show ?thesis by (simp add: force_inner_keeps [of f, OF assms])
  next
    case False
    then show ?thesis by (subst force_outer.simps) simp
  qed
qed

lemma compute_forces_keeps:
  assumes "\<And>(x::'a Object) v. f (x\<lparr>force := v\<rparr>) = f x"
  shows "map f (compute_forces A objects) = map f objects"
  unfolding compute_forces_def by (rule force_outer_keeps) (rule assms)

lemma length_force_outer [simp]: "length (force_outer i A objects) = length objects"
  using force_outer_keeps [of "\<lambda>_. ()" i A objects] by (metis length_map)

lemma length_compute_forces [simp]: "length (compute_forces A objects) = length objects"
  by (simp add: compute_forces_def)

lemma compute_forces_nth:
  assumes "\<And>(x::'a Object) v. f (x\<lparr>force := v\<rparr>) = f x" and "k < length objects"
  shows "f (compute_forces A objects ! k) = f (objects ! k)"
proof -
  have "map f (compute_forces A objects) ! k = map f objects ! k"
    by (simp only: compute_forces_keeps [of f, OF assms(1)])
  then show ?thesis using assms(2) by simp
qed

lemma compute_forces_position:
  "k < length objects \<Longrightarrow> position (compute_forces A objects ! k) = position (objects ! k)"
  by (rule compute_forces_nth) simp_all

lemma compute_forces_velocity:
  "k < length objects \<Longrightarrow> velocity (compute_forces A objects ! k) = velocity (objects ! k)"
  by (rule compute_forces_nth) simp_all

lemma compute_forces_mass:
  "k < length objects \<Longrightarrow> mass (compute_forces A objects ! k) = mass (objects ! k)"
  by (rule compute_forces_nth) simp_all

subsection \<open>The gravity loop for two bodies\<close>

lemma force_inner_step:
  "j < length objects \<Longrightarrow>
    force_inner i j A objects = force_inner i (Suc j) A (pair_force i j A objects)"
  by (subst force_inner.simps) simp

lemma force_inner_stop: "length objects \<le> j \<Longrightarrow> force_inner i j A objects = objects"
  by (subst force_inner.simps) simp

lemma force_outer_step:
  "i < length objects \<Longrightarrow>
    force_outer i A objects = force_outer (Suc i) A (force_inner i (Suc i) A objects)"
  by (subst force_outer.simps) simp

lemma force_outer_stop: "length objects \<le> i \<Longrightarrow> force_outer i A objects = objects"
  by (subst force_outer.simps) simp

lemma compute_forces_two:
  assumes "length objects = 2"
  shows "compute_forces A objects = pair_force 0 1 A objects"
proof -
  have len: "length objects = Suc (Suc 0)"
    using assms by simp
  have a: "force_inner 0 (Suc 0) A objects = pair_force 0 (Suc 0) A objects"
    by (simp add: force_inner_step force_inner_stop len)
  have "force_outer 0 A objects = force_outer (Suc 0) A (pair_force 0 (Suc 0) A objects)"
    by (simp add: force_outer_step len a)
  also have "\<dots> = force_outer (Suc (Suc 0)) A (pair_force 0 (Suc 0) A objects)"
    by (simp add: force_outer_step force_inner_stop len)
  also have "\<dots> = pair_force 0 (Suc 0) A objects"
    by (simp add: force_outer_stop len)
  finally show ?thesis
    by (simp add: compute_forces_def)
qed

lemma pair_force_forces:
  assumes "length objects = 2"
  shows "force (pair_force 0 1 A objects ! 0) =
      vscale A (glm_normalize A (vsub A (position (objects ! 1)) (position (objects ! 0))))
        (ddiv A (dmul A (gravity_constant A) (dmul A (mass (objects ! 0)) (mass (objects ! 1))))
           (glm_length2 A (vsub A (position (objects ! 1)) (position (objects ! 0)))))"
    and "force (pair_force 0 1 A objects ! 1) = vneg A (force (pair_force 0 1 A objects ! 0))"
  using assms by (simp_all add: pair_force_def Let_def)

lemma length_initial_objects [simp]: "length (initial_objects A f0) = 2"
  by (simp add: initial_objects_def)

lemma initial_forces_overwritten:
  "compute_forces A (initial_objects A f0) = compute_forces A (initial_objects A f0')"
  by (simp add: compute_forces_two initial_objects_def pair_force_def Let_def)

subsection \<open>The integration loop\<close>

lemma integrate_loop_nth:
  "integrate_loop i method junk A objects ! k =
    (if i \<le> k \<and> k < length objects then integrate_object method (junk k) A (objects ! k)
     else objects ! k)"
proof (induction i "method" junk A objects rule: integrate_loop.induct)
  case (1 i m junk A objects)
  show ?case
  proof (cases "i < length objects")
    case True
    then have "integrate_loop i m junk A objects =
        integrate_loop (i + 1) m junk A (integrate_at m junk A i objects)"
      by (subst integrate_loop.simps) simp
    with 1 True show ?thesis
      by (auto simp: integrate_at_def nth_list_update)
  next
    case False
    then show ?thesis by (subst integrate_loop.simps) auto
  qed
qed

lemma length_integrate_loop [simp]:
  "length (integrate_loop i method junk A objects) = length objects"
proof (induction i "method" junk A objects rule: integrate_loop.induct)
  case (1 i m junk A objects)
  then show ?case by (subst integrate_loop.simps) simp
qed

lemma integrate_object_junk:
  "method = METHOD_NAIVE \<or> method = METHOD_SYMPLECTIC \<Longrightarrow>
    integrate_object method junk A obj = integrate_object method junk' A obj"
  by (auto simp: integrate_object_def assign_new_position_def Let_def)

lemma integrate_loop_junk:
  assumes "method = METHOD_NAIVE \<or> method = METHOD_SYMPLECTIC"
  shows "integrate_loop i method junk A objects = integrate_loop i method junk' A objects"
proof (rule nth_equalityI)
  show "length (integrate_loop i method junk A objects) =
      length (integrate_loop i method junk' A objects)"
    by simp
next
  fix k
  show "integrate_loop i method junk A objects ! k = integrate_loop i method junk' A objects ! k"
    using integrate_object_junk [OF assms, of "junk k" A "objects ! k" "junk' k"]
    by (simp add: integrate_loop_nth)
qed

lemma length_fold_integrate_at [simp]:
  "length (fold (integrate_at method junk A) idx objects) = length objects"
  by (induction idx arbitrary: objects) simp_all

lemma integrate_at_nth:
  "integrate_at method junk A i objects ! k =
    (if k = i \<and> i < length objects then integrate_object method (junk i) A (objects ! i)
     else objects ! k)"
proof (cases "i < length objects")
  case True
  then show ?thesis by (simp add: integrate_at_def nth_list_update)
next
  case False
  then show ?thesis by (simp add: integrate_at_def list_update_beyond)
qed

lemma fold_integrate_at_nth:
  "distinct idx \<Longrightarrow>
    fold (integrate_at method junk A) idx objects ! k =
      (if k \<in> set idx \<and> k < length objects
       then integrate_object method (junk k) A (objects ! k) else objects ! k)"
proof (induction idx arbitrary: objects)
  case Nil
  show ?case by simp
next
  case (Cons i idx)
  then have d: "distinct idx" and i: "i \<notin> set idx"
    by simp_all
  show ?case
    using Cons.IH [OF d, of "integrate_at method junk A i objects"] i
    by (auto simp: integrate_at_nth)
qed

lemma integrate_loop_fold:
  assumes "distinct idx" and "set idx = {0..<length objects}"
  shows "integrate_loop 0 method junk A objects = fold (integrate_at method junk A) idx objects"
proof (rule nth_equalityI)
  show "length (integrate_loop 0 method junk A objects) =
      length (fold (integrate_at method junk A) idx objects)"
    by simp
next
  fix k
  show "integrate_loop 0 method junk A objects ! k =
      fold (integrate_at method junk A) idx objects ! k"
    using assms by (simp add: integrate_loop_nth fold_integrate_at_nth)
qed

subsection \<open>The simulation loop\<close>

lemma step_body_fst:
  "fst (step_body step method junk A objects) =
    integrate_loop 0 method (junk step) A (compute_forces A objects)"
  by (simp add: step_body_def Let_def)

lemma step_body_snd:
  "snd (step_body step method junk A objects) =
    show_line step A (fst (step_body step method junk A objects))"
  by (simp add: step_body_def Let_def)

lemma length_step_body [simp]:
  "length (fst (step_body step method junk A objects)) = length objects"
  by (simp add: step_body_fst)

lemma step_body_nth:
  "i < length objects \<Longrightarrow>
    fst (step_body step method junk A objects) ! i =
      integrate_object method (junk step i) A (compute_forces A objects ! i)"
  by (simp add: step_body_fst integrate_loop_nth)

lemma step_body_junk:
  "method = METHOD_NAIVE \<or> method = METHOD_SYMPLECTIC \<Longrightarrow>
    step_body step method junk A objects = step_body step method junk' A objects"
  using integrate_loop_junk [of "method" 0 "junk step" A "compute_forces A objects" "junk' step"]
  by (simp add: step_body_def Let_def)

lemma main_loop_step:
  "step < number_steps \<Longrightarrow>
    main_loop step method junk A objects out =
      main_loop (Suc step) method junk A (fst (step_body step method junk A objects))
        (out @ [show_line step A (fst (step_body step method junk A objects))])"
  by (subst main_loop.simps) (simp add: step_body_snd [symmetric] split: prod.split)

lemma main_loop_stop:
  "number_steps \<le> step \<Longrightarrow> main_loop step method junk A objects out = (objects, out)"
  by (subst main_loop.simps) simp

lemma map_upt_Suc_shift: "map f [0..<Suc n] = f 0 # map (\<lambda>k. f (Suc k)) [0..<n]"
  by (simp only: upt_conv_Cons [of 0 "Suc n"] map_Suc_upt [symmetric] list.map map_map o_def)

lemma main_loop_out:
  "snd (main_loop step method junk A objects out) =
    out @ map (\<lambda>k. show_line (step + k) A (objects_after step (Suc k) method junk A objects))
           [0..<number_steps - step]"
proof (induction step "method" junk A objects out rule: main_loop.induct)
  case (1 step m junk A objects out)
  show ?case
  proof (cases "step < number_steps")
    case True
    define objects' where "objects' = fst (step_body step m junk A objects)"
    define line where "line = show_line step A objects'"
    have sb: "step_body step m junk A objects = (objects', line)"
      by (simp add: objects'_def line_def step_body_snd [symmetric])
    have n: "number_steps - step = Suc (number_steps - (step + 1))"
      using True by simp
    have "snd (main_loop step m junk A objects out) =
        snd (main_loop (step + 1) m junk A objects' (out @ [line]))"
      using True by (simp add: main_loop_step objects'_def line_def)
    also have "\<dots> = (out @ [line]) @
        map (\<lambda>k. show_line (step + 1 + k) A (objects_after (step + 1) (Suc k) m junk A objects'))
          [0..<number_steps - (step + 1)]"
      using "1.IH" [OF True sb [symmetric]] .
    also have "\<dots> = out @
        map (\<lambda>k. show_line (step + k) A (objects_after step (Suc k) m junk A objects))
          [0..<number_steps - step]"
      by (simp only: n map_upt_Suc_shift) (simp add: objects'_def line_def)
    finally show ?thesis .
  next
    case False
    then show ?thesis by (simp add: main_loop_stop)
  qed
qed

lemma number_steps_eq: "number_steps = 8760"
  by (simp add: number_steps_def)

lemma objects_after_junk:
  "method = METHOD_NAIVE \<or> method = METHOD_SYMPLECTIC \<Longrightarrow>
    objects_after s n method junk A objects = objects_after s n method junk' A objects"
proof (induction n arbitrary: s objects)
  case 0
  show ?case by simp
next
  case (Suc n)
  then show ?case
    using step_body_junk [of "method" s junk A objects junk'] by simp
qed

lemma length_objects_after [simp]:
  "length (objects_after s n method junk A objects) = length objects"
  by (induction n arbitrary: s objects) simp_all

lemma main_loop_out_junk:
  assumes "method = METHOD_NAIVE \<or> method = METHOD_SYMPLECTIC"
  shows "snd (main_loop 0 method junk A objects []) = snd (main_loop 0 method junk' A objects [])"
  by (simp only: main_loop_out objects_after_junk [OF assms, of _ _ junk A _ junk'])

lemma cout_main:
  "method = METHOD_NAIVE \<or> method = METHOD_SYMPLECTIC \<Longrightarrow>
    cout (main A f0 junk [prog, method]) =
      map (\<lambda>k. show_line k A (objects_after 0 (Suc k) method junk A (initial_objects A f0)))
        [0..<number_steps]"
  using main_loop_out [of 0 "method" junk A "initial_objects A f0" "[]"]
  by (auto simp: main_def Let_def)

lemma initial_step_force:
  "fst (step_body s method junk A (initial_objects A f0)) =
    fst (step_body s method junk A (initial_objects A f0'))"
  by (simp add: step_body_fst initial_forces_overwritten [of A f0 f0'])

lemma main_junk:
  "main A f0 junk [prog, method] = main A f0' junk' [prog', method]"
proof (cases "method = METHOD_NAIVE \<or> method = METHOD_SYMPLECTIC")
  case True
  have "objects_after 0 (Suc k) method junk A (initial_objects A f0) =
      objects_after 0 (Suc k) method junk' A (initial_objects A f0')" for k
  proof -
    have "objects_after 0 (Suc k) method junk A (initial_objects A f0) =
        objects_after (Suc 0) k method junk A
          (fst (step_body 0 method junk A (initial_objects A f0')))"
      by (simp add: initial_step_force [of 0 "method" junk A f0 f0'])
    also have "\<dots> = objects_after (Suc 0) k method junk A
          (fst (step_body 0 method junk' A (initial_objects A f0')))"
      by (simp only: step_body_junk [OF True, of 0 junk A "initial_objects A f0'" junk'])
    also have "\<dots> = objects_after (Suc 0) k method junk' A
          (fst (step_body 0 method junk' A (initial_objects A f0')))"
      by (rule objects_after_junk [OF True])
    finally show ?thesis
      by simp
  qed
  then have "cout (main A f0 junk [prog, method]) = cout (main A f0' junk' [prog', method])"
    by (simp only: cout_main [OF True])
  then show ?thesis
    using True by (auto simp: main_def Let_def)
next
  case False
  then show ?thesis
    by (auto simp: main_def Let_def)
qed

subsection \<open>Evaluation on concrete bodies\<close>

lemma xneg_xneg: "xneg (xneg a) = a"
  by (cases a) simp_all

lemmas xarith_simps =
  xarith_def xsub_def xinf_def vadd_def vsub_def vmul_def vneg_def vscale_def vdivs_def
  glm_dot_def glm_inversesqrt_def glm_normalize_def glm_length2_def glm_length_def
  glm_distance_def delta_time_def gravity_constant_def METHOD_NAIVE_def METHOD_SYMPLECTIC_def
  of_rat_divide of_rat_mult of_rat_power

lemma sample_forces:
  "compute_forces xarith sample_objects =
    [(sample_objects ! 0)\<lparr>force := Vec2 (Fin (3337 / 2)) (Fin 0)\<rparr>,
     (sample_objects ! 1)\<lparr>force := Vec2 (Fin (- (3337 / 2))) (Fin 0)\<rparr>]"
  by (simp add: compute_forces_two sample_objects_def pair_force_def Let_def xarith_simps)

lemma initial_step_naive:
  "map position (fst (step_body 0 METHOD_NAIVE junk xarith (initial_objects xarith f0))) =
    [Vec2 (Fin 0) (Fin (- 45000)), Vec2 (Fin 384405000) (Fin 3679200)]"
  by (rule nth_equalityI)
     (auto simp: less_Suc_eq numeral_2_eq_2 step_body_nth integrate_object_def
       assign_new_position_def Let_def compute_forces_position compute_forces_velocity
       initial_objects_def xarith_simps)

subsection \<open>The default conversion of a double\<close>

lemma round_half_even_of_int [simp]: "round_half_even (of_int m) = m"
  by (simp add: round_half_even_def)

lemma round_half_even_ge: "of_int a \<le> x \<Longrightarrow> a \<le> round_half_even x"
proof -
  assume "of_int a \<le> x"
  then have "a \<le> \<lfloor>x\<rfloor>" by (simp add: le_floor_iff)
  then show ?thesis by (auto simp: round_half_even_def Let_def)
qed

lemma round_half_even_le: "x \<le> of_int b \<Longrightarrow> round_half_even x \<le> b"
proof -
  assume b: "x \<le> of_int b"
  show ?thesis
  proof (cases "x = of_int b")
    case True
    then show ?thesis by simp
  next
    case False
    with b have "x < of_int b" by simp
    then have "\<lfloor>x\<rfloor> < b" by (simp add: floor_less_iff)
    then show ?thesis by (auto simp: round_half_even_def Let_def)
  qed
qed

lemma round_half_even_unique:
  assumes "of_int m - 1 / 2 < x" and "x < of_int m + 1 / 2"
  shows "round_half_even x = m"
proof (cases "of_int m \<le> x")
  case True
  then have "\<lfloor>x\<rfloor> = m" using assms(2) by (intro floor_unique) auto
  then show ?thesis using assms(2) by (simp add: round_half_even_def Let_def)
next
  case False
  then have "\<lfloor>x\<rfloor> = m - 1" using assms(1) by (intro floor_unique) auto
  then show ?thesis using assms(1) False by (simp add: round_half_even_def Let_def)
qed

lemma decimal_exponent:
  assumes "0 < v"
  shows "10 powr of_int \<lfloor>log 10 v\<rfloor> \<le> v" and "v < 10 powr (of_int \<lfloor>log 10 v\<rfloor> + 1)"
  using floor_log_eq_powr_iff [of v 10 "\<lfloor>log 10 v\<rfloor>"] assms by simp_all

lemma scaled_range:
  assumes "0 < (v::real)" and "10 powr of_int e \<le> v" and "v < 10 powr (of_int e + 1)"
  shows "100000 \<le> v * 10 powr (5 - of_int e)" and "v * 10 powr (5 - of_int e) < 1000000"
proof -
  have p: "(0::real) < 10 powr (5 - of_int e)" by simp
  have a: "10 powr of_int e * 10 powr (5 - of_int e) = (100000::real)"
    using powr_add [of "10::real" "of_int e" "5 - of_int e"] by simp
  have b: "10 powr (of_int e + 1) * 10 powr (5 - of_int e) = (1000000::real)"
    using powr_add [of "10::real" "of_int e + 1" "5 - of_int e"] by simp
  show "100000 \<le> v * 10 powr (5 - of_int e)"
    using mult_right_mono [OF assms(2), of "10 powr (5 - of_int e)"] a by simp
  show "v * 10 powr (5 - of_int e) < 1000000"
    using mult_strict_right_mono [OF assms(3) p] b by simp
qed

lemma sig6_eq:
  assumes "0 < v" and "10 powr of_int X \<le> v" and "v < 10 powr (of_int X + 1)"
    and "of_int m - 1 / 2 < v * 10 powr (5 - of_int X)"
    and "v * 10 powr (5 - of_int X) < of_int m + 1 / 2" and "m \<noteq> 1000000"
  shows "sig6 v = (m, X)"
proof -
  have e: "\<lfloor>log 10 v\<rfloor> = X"
    using floor_log_eq_powr_iff [of v 10 X] assms(1-3) by simp
  have "round_half_even (v * 10 powr (5 - of_int X)) = m"
    using assms(4,5) by (rule round_half_even_unique)
  then show ?thesis
    using assms(6) by (simp add: sig6_def e Let_def)
qed

lemma sig6_range:
  assumes "0 < v" and "sig6 v = (m, X)"
  shows "100000 \<le> m" and "m < 1000000"
proof -
  let ?e = "\<lfloor>log 10 v\<rfloor>"
  let ?m = "round_half_even (v * 10 powr (5 - of_int ?e))"
  note r = scaled_range [OF assms(1) decimal_exponent [OF assms(1)]]
  have lo: "100000 \<le> ?m"
    using round_half_even_ge [of 100000 "v * 10 powr (5 - of_int ?e)"] r(1) by simp
  have hi: "?m \<le> 1000000"
    using round_half_even_le [of "v * 10 powr (5 - of_int ?e)" 1000000] r(2) by simp
  show "100000 \<le> m" and "m < 1000000"
    using assms(2) lo hi by (auto simp: sig6_def Let_def split: if_splits)
qed

lemma sig6_value:
  assumes "100000 \<le> m" and "m < 1000000"
  shows "sig6 (of_int m * 10 powr (of_int X - 5)) = (m, X)"
proof (rule sig6_eq)
  let ?v = "of_int m * 10 powr (of_int X - 5) :: real"
  have p: "(0::real) < 10 powr (of_int X - 5)" by simp
  show "0 < ?v" using assms(1) by simp
  have a: "(10::real) powr of_int X = 100000 * 10 powr (of_int X - 5)"
    using powr_add [of "10::real" 5 "of_int X - 5"] by simp
  have b: "(10::real) powr (of_int X + 1) = 1000000 * 10 powr (of_int X - 5)"
    using powr_add [of "10::real" 6 "of_int X - 5"] by (simp add: add.commute)
  have m1: "(100000::real) \<le> of_int m" using assms(1) by linarith
  have m2: "(of_int m :: real) < 1000000" using assms(2) by linarith
  show "10 powr of_int X \<le> ?v"
    unfolding a using mult_right_mono [OF m1, of "10 powr (of_int X - 5)"] by simp
  show "?v < 10 powr (of_int X + 1)"
    unfolding b using mult_strict_right_mono [OF m2 p] by simp
  have "?v * 10 powr (5 - of_int X) = of_int m * (10 powr (of_int X - 5) * 10 powr (5 - of_int X))"
    by simp
  also have "\<dots> = of_int m"
    using powr_add [of "10::real" "of_int X - 5" "5 - of_int X"] by simp
  finally have s: "?v * 10 powr (5 - of_int X) = of_int m" .
  show "of_int m - 1 / 2 < ?v * 10 powr (5 - of_int X)" unfolding s by simp
  show "?v * 10 powr (5 - of_int X) < of_int m + 1 / 2" unfolding s by simp
  show "m \<noteq> 1000000" using assms(2) by simp
qed

lemma format_g_round6: "format_g (round6 v) = format_g v"
proof (cases "v = 0")
  case True
  then show ?thesis by (simp add: round6_def)
next
  case False
  obtain m X where s: "sig6 \<bar>v\<bar> = (m, X)" by (cases "sig6 \<bar>v\<bar>")
  have pos: "0 < \<bar>v\<bar>" using False by simp
  note r = sig6_range [OF pos s]
  let ?w = "of_int m * 10 powr (of_int X - 5) :: real"
  have w: "0 < ?w" using r(1) by simp
  have r6: "round6 v = sgn v * ?w" using False by (simp add: round6_def s)
  have m0: "(0::real) \<le> of_int m" using r(1) by simp
  have abs: "\<bar>round6 v\<bar> = ?w"
    using False m0 by (simp add: r6 abs_mult)
  have nz: "round6 v \<noteq> 0" using abs w by auto
  have neg: "round6 v < 0 \<longleftrightarrow> v < 0"
    using False w by (auto simp: r6 sgn_if)
  show ?thesis
    using nz False by (simp add: format_g_def abs neg sig6_value [OF r] s)
qed

lemma ostream_double_xround6: "ostream_double (xround6 v) = ostream_double v"
  by (cases v) (simp_all add: format_g_round6)

lemma five: "(5::nat) = Suc (Suc (Suc (Suc (Suc 0))))"
  by simp

lemma digits_unfold:
  "digits 1 n = [digit (n mod 10)]"
  "digits 2 n = [digit (n div 10 mod 10), digit (n mod 10)]"
  "digits 5 n =
    [digit (n div 10 div 10 div 10 div 10 mod 10), digit (n div 10 div 10 div 10 mod 10),
     digit (n div 10 div 10 mod 10), digit (n div 10 mod 10), digit (n mod 10)]"
  by (simp_all only: five numeral_2_eq_2 One_nat_def digits.simps append.simps)

lemma show_nat_unfold:
  "n < 10 \<Longrightarrow> show_nat n = [digit n]"
  "10 \<le> n \<Longrightarrow> show_nat n = show_nat (n div 10) @ [digit (n mod 10)]"
  by (subst show_nat.simps, simp)+

lemma format_sig_values:
  "format_sig (450000, 4) = ''45000''"
  "format_sig (384405, 8) = ''3.84405e+08''"
  "format_sig (367920, 6) = ''3.6792e+06''"
  "format_sig (384423, 8) = ''3.84423e+08''"
  by (simp_all add: format_sig_def fraction_def digits_unfold show_nat_unfold digit_def)

lemma sig6_exact:
  assumes "100000 \<le> m" and "m < 1000000" and "v = of_int m * 10 powr (of_int X - 5)"
  shows "sig6 v = (m, X)"
  unfolding assms(3) using assms(1,2) by (rule sig6_value)

lemma format_g_values:
  "format_g 0 = ''0''"
  "format_g (- 45000) = ''-45000''"
  "format_g 384405000 = ''3.84405e+08''"
  "format_g 3679200 = ''3.6792e+06''"
  "format_g 384423000 = ''3.84423e+08''"
proof -
  show "format_g 0 = ''0''"
    by (simp add: format_g_def)
  have "sig6 45000 = (450000, 4)"
    by (rule sig6_exact) (simp_all add: powr_neg_numeral)
  then show "format_g (- 45000) = ''-45000''"
    by (simp add: format_g_def format_sig_values)
  have "sig6 384405000 = (384405, 8)"
    by (rule sig6_exact) simp_all
  then show "format_g 384405000 = ''3.84405e+08''"
    by (simp add: format_g_def format_sig_values)
  have "sig6 3679200 = (367920, 6)"
    by (rule sig6_exact) simp_all
  then show "format_g 3679200 = ''3.6792e+06''"
    by (simp add: format_g_def format_sig_values)
  have "sig6 384423000 = (384423, 8)"
    by (rule sig6_exact) simp_all
  then show "format_g 384423000 = ''3.84423e+08''"
    by (simp add: format_g_def format_sig_values)
qed

lemma distance_bounds:
  "384423040 < sqrt 147781073690640000" "sqrt 147781073690640000 < 384423041"
  by (rule real_less_rsqrt, simp) (rule real_less_lsqrt, simp_all)

lemma sig6_interval:
  assumes "384423040 < d" and "d < 384423041"
  shows "sig6 d = (384423, 8)"
proof (rule sig6_eq)
  show "0 < d" using assms(1) by simp
  show "10 powr of_int 8 \<le> d" using assms(1) by simp
  show "d < 10 powr (of_int 8 + 1)" using assms(2) by simp
  show "of_int 384423 - 1 / 2 < d * 10 powr (5 - of_int 8)"
    using assms(1) by (simp add: powr_neg_numeral)
  show "d * 10 powr (5 - of_int 8) < of_int 384423 + 1 / 2"
    using assms(2) by (simp add: powr_neg_numeral)
  show "(384423::int) \<noteq> 1000000" by simp
qed

lemma format_g_interval:
  assumes "384423040 < d" and "d < 384423041"
  shows "format_g d = ''3.84423e+08''"
  using assms(1) by (simp add: format_g_def sig6_interval [OF assms] format_sig_values)

lemma sig6_distance: "sig6 (sqrt 147781073690640000) = (384423, 8)"
  using distance_bounds by (rule sig6_interval)

lemma format_g_distance: "format_g (sqrt 147781073690640000) = ''3.84423e+08''"
  using distance_bounds by (rule format_g_interval)

lemma round6_distance: "round6 (sqrt 147781073690640000) = 384423000"
  using distance_bounds(1) by (simp add: round6_def sig6_distance)

lemma round6_384423000: "round6 384423000 = 384423000"
proof -
  have "sig6 384423000 = (384423, 8)"
    by (rule sig6_exact) simp_all
  then show ?thesis
    by (simp add: round6_def)
qed

lemma first_line_naive:
  "cout (main xarith f0 junk [prog, METHOD_NAIVE]) ! 0 =
    [Dbl (Fin 0), Str [CHR 0x09], Dbl (Fin 0), Str [CHR 0x09], Dbl (Fin (- 45000)),
     Str [CHR 0x09], Dbl (Fin 384405000), Str [CHR 0x09], Dbl (Fin 3679200),
     Str [CHR 0x09], Dbl (Fin (sqrt 147781073690640000)), Endl]"
proof -
  let ?objects = "fst (step_body 0 METHOD_NAIVE junk xarith (initial_objects xarith f0))"
  have p0: "position (?objects ! 0) = Vec2 (Fin 0) (Fin (- 45000))"
    using arg_cong [OF initial_step_naive [of junk f0], of "\<lambda>xs. xs ! 0"] by simp
  have p1: "position (?objects ! Suc 0) = Vec2 (Fin 384405000) (Fin 3679200)"
    using arg_cong [OF initial_step_naive [of junk f0], of "\<lambda>xs. xs ! 1"] by simp
  have "cout (main xarith f0 junk [prog, METHOD_NAIVE]) ! 0 = show_line 0 xarith ?objects"
    by (simp add: cout_main number_steps_eq)
  also have "\<dots> =
      [Dbl (dmul xarith (dof_int xarith (int 0)) (delta_time xarith)), Str [CHR 0x09],
       Dbl (Fin 0), Str [CHR 0x09], Dbl (Fin (- 45000)), Str [CHR 0x09],
       Dbl (Fin 384405000), Str [CHR 0x09], Dbl (Fin 3679200), Str [CHR 0x09],
       Dbl (glm_distance xarith (Vec2 (Fin 0) (Fin (- 45000)))
              (Vec2 (Fin 384405000) (Fin 3679200))), Endl]"
    by (simp add: show_line_def TAB_def p0 p1)
  also have "\<dots> =
      [Dbl (Fin 0), Str [CHR 0x09], Dbl (Fin 0), Str [CHR 0x09], Dbl (Fin (- 45000)),
       Str [CHR 0x09], Dbl (Fin 384405000), Str [CHR 0x09], Dbl (Fin 3679200),
       Str [CHR 0x09], Dbl (Fin (sqrt 147781073690640000)), Endl]"
    by (simp add: xarith_simps)
  finally show ?thesis .
qed

lemma render_xround6: "render (\<lambda>v. xround6 (val v)) line = render val line"
proof -
  have "render_item (\<lambda>v. xround6 (val v)) item = render_item val item" for item
    by (cases item) (simp_all add: ostream_double_xround6)
  then have "render_item (\<lambda>v. xround6 (val v)) = render_item val"
    by (rule ext)
  then show ?thesis
    by (simp add: render_def)
qed

section \<open>The integration step\<close>

text \<open>
  Claim C1. In every step and for every body \<open>i\<close>, the new velocity is the old velocity
  plus \<open>(force / mass) * delta_time\<close>, with the force of the gravity loop of this step;
  with the naive method the new position is the old position plus the old velocity times
  \<open>delta_time\<close>, with the symplectic method the old position plus the new velocity times
  \<open>delta_time\<close>; the body's velocity and position after the step are these new values.
\<close>

theorem integration_update:
  assumes "i < length objects"
  shows "let objects1 = compute_forces A objects;
             objects2 = fst (step_body step method junk A objects);
             old_velocity = velocity (objects ! i);
             old_position = position (objects ! i);
             acceleration = vdivs A (force (objects1 ! i)) (mass (objects ! i));
             new_velocity = vadd A old_velocity (vscale A acceleration (delta_time A))
         in velocity (objects2 ! i) = new_velocity \<and>
            (method = METHOD_NAIVE \<longrightarrow>
               position (objects2 ! i) =
                 vadd A old_position (vscale A old_velocity (delta_time A))) \<and>
            (method = METHOD_SYMPLECTIC \<longrightarrow>
               position (objects2 ! i) =
                 vadd A old_position (vscale A new_velocity (delta_time A)))"
  using assms
  by (simp add: Let_def step_body_nth integrate_object_def assign_new_position_def
      compute_forces_position compute_forces_velocity compute_forces_mass
      METHOD_NAIVE_def METHOD_SYMPLECTIC_def)

theorem integration_update_witness:
  "0 < length sample_objects \<and>
   velocity (fst (step_body 0 METHOD_NAIVE nan_junk xarith sample_objects) ! 0) =
     Vec2 (Fin 6006600) (Fin 1) \<and>
   position (fst (step_body 0 METHOD_NAIVE nan_junk xarith sample_objects) ! 0) =
     Vec2 (Fin 0) (Fin 3600) \<and>
   velocity (fst (step_body 0 METHOD_SYMPLECTIC nan_junk xarith sample_objects) ! 0) =
     Vec2 (Fin 6006600) (Fin 1) \<and>
   position (fst (step_body 0 METHOD_SYMPLECTIC nan_junk xarith sample_objects) ! 0) =
     Vec2 (Fin 21623760000) (Fin 3600)"
proof -
  have len: "0 < length sample_objects"
    by (simp add: sample_objects_def)
  show ?thesis
    using integration_update [OF len, of xarith 0 METHOD_NAIVE nan_junk]
      integration_update [OF len, of xarith 0 METHOD_SYMPLECTIC nan_junk]
    by (simp add: Let_def sample_forces) (simp add: sample_objects_def xarith_simps)
qed

section \<open>The output records\<close>

text \<open>
  Claim C2. A run with the method \<open>naive\<close> or \<open>symplectic\<close> ends with status 0 and emits
  exactly \<open>number_steps = 8760\<close> records, one for each step. Record \<open>k\<close> (counted from 0)
  consists of six numbers separated by the string \<open>"\t"\<close> and closed by \<open>std::endl\<close>, in
  this order: the elapsed time \<open>k * delta_time\<close>, \<open>x\<close> and \<open>y\<close> of body 0, \<open>x\<close> and \<open>y\<close> of
  body 1, and the distance of bodies 0 and 1, all taken from the bodies after the update
  of step \<open>k\<close>, that is after \<open>k + 1\<close> iterations of the loop.
\<close>

theorem output_records:
  assumes "method = METHOD_NAIVE \<or> method = METHOD_SYMPLECTIC"
  shows "exit_status (main A f0 junk [prog, method]) = 0 \<and>
         length (cout (main A f0 junk [prog, method])) = 8760 \<and>
         (\<forall>k<8760. cout (main A f0 junk [prog, method]) ! k =
            (let objects = objects_after 0 (Suc k) method junk A (initial_objects A f0) in
               [Dbl (dmul A (dof_int A (int k)) (delta_time A)), Str [CHR 0x09],
                Dbl (vec_x (position (objects ! 0))), Str [CHR 0x09],
                Dbl (vec_y (position (objects ! 0))), Str [CHR 0x09],
                Dbl (vec_x (position (objects ! 1))), Str [CHR 0x09],
                Dbl (vec_y (position (objects ! 1))), Str [CHR 0x09],
                Dbl (glm_distance A (position (objects ! 0)) (position (objects ! 1))),
                Endl]))"
proof -
  have status: "exit_status (main A f0 junk [prog, method]) = 0"
    using assms by (auto simp: main_def Let_def)
  have len: "length (cout (main A f0 junk [prog, method])) = 8760"
    by (simp add: cout_main [OF assms] number_steps_eq)
  have line: "cout (main A f0 junk [prog, method]) ! k =
      show_line k A (objects_after 0 (Suc k) method junk A (initial_objects A f0))"
    if "k < 8760" for k
    using that by (simp add: cout_main [OF assms] number_steps_eq del: objects_after.simps)
  show ?thesis
    using status len line by (simp add: show_line_def TAB_def Let_def del: objects_after.simps)
qed

theorem output_records_witness:
  "(METHOD_NAIVE = METHOD_NAIVE \<or> METHOD_NAIVE = METHOD_SYMPLECTIC) \<and>
   exit_status (main xarith (Vec2 NaN NaN) nan_junk [''Integration'', METHOD_NAIVE]) = 0 \<and>
   length (cout (main xarith (Vec2 NaN NaN) nan_junk [''Integration'', METHOD_NAIVE])) = 8760 \<and>
   cout (main xarith (Vec2 NaN NaN) nan_junk [''Integration'', METHOD_NAIVE]) ! 0 =
     [Dbl (Fin 0), Str [CHR 0x09], Dbl (Fin 0), Str [CHR 0x09], Dbl (Fin (- 45000)),
      Str [CHR 0x09], Dbl (Fin 384405000), Str [CHR 0x09], Dbl (Fin 3679200),
      Str [CHR 0x09], Dbl (Fin (sqrt 147781073690640000)), Endl]"
proof -
  let ?run = "main xarith (Vec2 NaN NaN) nan_junk [''Integration'', METHOD_NAIVE]"
  let ?objects = "fst (step_body 0 METHOD_NAIVE nan_junk xarith
      (initial_objects xarith (Vec2 NaN NaN)))"
  have m: "METHOD_NAIVE = METHOD_NAIVE \<or> METHOD_NAIVE = METHOD_SYMPLECTIC"
    by simp
  note run = output_records [OF m, of xarith "Vec2 NaN NaN" nan_junk "''Integration''"]
  have p0: "position (?objects ! 0) = Vec2 (Fin 0) (Fin (- 45000))"
    using arg_cong [OF initial_step_naive [of nan_junk "Vec2 NaN NaN"], of "\<lambda>xs. xs ! 0"]
    by simp
  have p1: "position (?objects ! Suc 0) = Vec2 (Fin 384405000) (Fin 3679200)"
    using arg_cong [OF initial_step_naive [of nan_junk "Vec2 NaN NaN"], of "\<lambda>xs. xs ! 1"]
    by simp
  have "cout ?run ! 0 =
      [Dbl (dmul xarith (dof_int xarith (int 0)) (delta_time xarith)), Str [CHR 0x09],
       Dbl (Fin 0), Str [CHR 0x09], Dbl (Fin (- 45000)), Str [CHR 0x09],
       Dbl (Fin 384405000), Str [CHR 0x09], Dbl (Fin 3679200), Str [CHR 0x09],
       Dbl (glm_distance xarith (Vec2 (Fin 0) (Fin (- 45000)))
              (Vec2 (Fin 384405000) (Fin 3679200))), Endl]"
    using run [THEN conjunct2, THEN conjunct2, rule_format, of 0]
    by (simp add: Let_def p0 p1)
  then have "cout ?run ! 0 =
      [Dbl (Fin 0), Str [CHR 0x09], Dbl (Fin 0), Str [CHR 0x09], Dbl (Fin (- 45000)),
       Str [CHR 0x09], Dbl (Fin 384405000), Str [CHR 0x09], Dbl (Fin 3679200),
       Str [CHR 0x09], Dbl (Fin (sqrt 147781073690640000)), Endl]"
    by (simp add: xarith_simps)
  with run m show ?thesis
    by simp
qed

section \<open>Newton's third law\<close>

text \<open>
  Claim C3. For two bodies, after the gravity loop the force of body 1 is the componentwise
  negation of the force of body 0: it is stored as the negation of the force just stored
  in body 0 and is not computed again. Where negating twice gives the value back, as the
  sign flip of binary64 does, the force of body 0 is in turn the negation of the force of
  body 1.
\<close>

theorem newton_third_law:
  assumes "length objects = 2"
  shows "force (compute_forces A objects ! 1) = vneg A (force (compute_forces A objects ! 0)) \<and>
         ((\<forall>x. dneg A (dneg A x) = x) \<longrightarrow>
            force (compute_forces A objects ! 0) = vneg A (force (compute_forces A objects ! 1)))"
  using assms pair_force_forces(2) [OF assms, of A]
  by (simp add: compute_forces_two vneg_def)

theorem newton_third_law_witness:
  "length sample_objects = 2 \<and> (\<forall>x. dneg xarith (dneg xarith x) = x) \<and>
   force (compute_forces xarith sample_objects ! 0) = Vec2 (Fin (3337 / 2)) (Fin 0) \<and>
   force (compute_forces xarith sample_objects ! 1) = Vec2 (Fin (- (3337 / 2))) (Fin 0) \<and>
   force (compute_forces xarith sample_objects ! 0) =
     vneg xarith (force (compute_forces xarith sample_objects ! 1))"
proof -
  have len: "length sample_objects = 2"
    by (simp add: sample_objects_def)
  have inv: "\<forall>x. dneg xarith (dneg xarith x) = x"
    by (simp add: xarith_def xneg_xneg)
  have neg: "vneg xarith (Vec2 (Fin (3337 / 2)) (Fin 0)) = Vec2 (Fin (- (3337 / 2))) (Fin 0)"
      "vneg xarith (Vec2 (Fin (- (3337 / 2))) (Fin 0)) = Vec2 (Fin (3337 / 2)) (Fin 0)"
    by (simp_all add: vneg_def xarith_def)
  have f0: "force (compute_forces xarith sample_objects ! 0) = Vec2 (Fin (3337 / 2)) (Fin 0)"
    by (simp add: sample_forces)
  from newton_third_law [OF len, of xarith, THEN conjunct1]
  have f1: "force (compute_forces xarith sample_objects ! 1) = Vec2 (Fin (- (3337 / 2))) (Fin 0)"
    by (simp only: f0 neg)
  from newton_third_law [OF len, of xarith, THEN conjunct2, rule_format, OF inv [rule_format]]
  have "force (compute_forces xarith sample_objects ! 0) =
      vneg xarith (force (compute_forces xarith sample_objects ! 1))" .
  with len inv f0 f1 show ?thesis
    by blast
qed

section \<open>Usage errors\<close>

text \<open>
  Claim C5. When the method is missing (or \<open>argc\<close> is not 2 for any other reason), or when
  it is neither \<open>naive\<close> nor \<open>symplectic\<close>, the program returns the status 1, which is not
  zero, and writes no record to the standard output; the message goes to the standard
  error stream.
\<close>

theorem usage_error:
  assumes "length argv \<noteq> 2 \<or> (argv ! 1 \<noteq> METHOD_NAIVE \<and> argv ! 1 \<noteq> METHOD_SYMPLECTIC)"
  shows "exit_status (main A f0 junk argv) = 1 \<and> exit_status (main A f0 junk argv) \<noteq> 0 \<and>
         cout (main A f0 junk argv) = [] \<and> cerr (main A f0 junk argv) \<noteq> []"
  using assms by (auto simp: main_def Let_def)

theorem usage_error_witness:
  "exit_status (main xarith (Vec2 NaN NaN) nan_junk [''Integration'']) = 1 \<and>
   cout (main xarith (Vec2 NaN NaN) nan_junk [''Integration'']) = [] \<and>
   exit_status (main xarith (Vec2 NaN NaN) nan_junk [''Integration'', ''euler'']) = 1 \<and>
   cout (main xarith (Vec2 NaN NaN) nan_junk [''Integration'', ''euler'']) = [] \<and>
   exit_status (main xarith (Vec2 NaN NaN) nan_junk [''Integration'', ''naive'', ''x'']) = 1 \<and>
   cout (main xarith (Vec2 NaN NaN) nan_junk [''Integration'', ''naive'', ''x'']) = []"
proof -
  have a: "length [''Integration''] \<noteq> 2 \<or>
      ([''Integration''] ! 1 \<noteq> METHOD_NAIVE \<and> [''Integration''] ! 1 \<noteq> METHOD_SYMPLECTIC)"
    by simp
  have b: "length [''Integration'', ''euler''] \<noteq> 2 \<or>
      ([''Integration'', ''euler''] ! 1 \<noteq> METHOD_NAIVE \<and>
       [''Integration'', ''euler''] ! 1 \<noteq> METHOD_SYMPLECTIC)"
    by (simp add: METHOD_NAIVE_def METHOD_SYMPLECTIC_def)
  have c: "length [''Integration'', ''naive'', ''x''] \<noteq> 2 \<or>
      ([''Integration'', ''naive'', ''x''] ! 1 \<noteq> METHOD_NAIVE \<and>
       [''Integration'', ''naive'', ''x''] ! 1 \<noteq> METHOD_SYMPLECTIC)"
    by simp
  show ?thesis
    using usage_error [OF a, of xarith "Vec2 NaN NaN" nan_junk]
      usage_error [OF b, of xarith "Vec2 NaN NaN" nan_junk]
      usage_error [OF c, of xarith "Vec2 NaN NaN" nan_junk]
    by simp
qed

section \<open>Precision of the printed numbers\<close>

text \<open>
  Claim C6 says that the numbers of a record are printed with the full precision of a
  double, so that the text reads back as the computed value. It is not so. In the first
  record of the naive run the distance of Earth and Moon is the square root of
  \<open>384405000\<^sup>2 + 3724200\<^sup>2 = 147781073690640000\<close>, about \<open>384423040.0101\<close>, and its text is
  \<open>3.84423e+08\<close>, which is also the text of the different value \<open>384423000\<close>. Every value
  between \<open>384423040\<close> and \<open>384423041\<close> has this text (\<open>format_g_interval\<close>), so the binary64
  distance, the correctly rounded square root of the same sum, has it too.
\<close>

theorem full_precision_counterexample:
  "cout (main xarith (Vec2 NaN NaN) nan_junk [''Integration'', METHOD_NAIVE]) ! 0 ! 10 =
     Dbl (Fin (sqrt 147781073690640000)) \<and>
   ostream_double (Fin (sqrt 147781073690640000)) = ''3.84423e+08'' \<and>
   ostream_double (Fin 384423000) = ''3.84423e+08'' \<and>
   Fin (sqrt 147781073690640000) \<noteq> Fin 384423000"
proof -
  have "sqrt 147781073690640000 \<noteq> 384423000"
    using distance_bounds(1) by simp
  then show ?thesis
    by (simp add: first_line_naive format_g_distance format_g_values)
qed

text \<open>
  Claim C6, amended. In every record of a run with the method \<open>naive\<close> or \<open>symplectic\<close>,
  each of the six numbers is written by the default conversion of the stream (\<open>%g\<close> with
  precision 6), the numbers separated by tabs and the record ended by a newline. The text
  of the record is the text it would have if every number were first rounded to six
  significant decimal digits, and two values with the same rounding have the same text.
\<close>

theorem default_format:
  assumes "method = METHOD_NAIVE \<or> method = METHOD_SYMPLECTIC" and "k < 8760"
  shows "render val (cout (main A f0 junk [prog, method]) ! k) =
           (let objects = objects_after 0 (Suc k) method junk A (initial_objects A f0) in
              ostream_double (val (dmul A (dof_int A (int k)) (delta_time A))) @ [CHR 0x09] @
              ostream_double (val (vec_x (position (objects ! 0)))) @ [CHR 0x09] @
              ostream_double (val (vec_y (position (objects ! 0)))) @ [CHR 0x09] @
              ostream_double (val (vec_x (position (objects ! 1)))) @ [CHR 0x09] @
              ostream_double (val (vec_y (position (objects ! 1)))) @ [CHR 0x09] @
              ostream_double
                (val (glm_distance A (position (objects ! 0)) (position (objects ! 1)))) @
              [CHR 0x0A]) \<and>
         render val (cout (main A f0 junk [prog, method]) ! k) =
           render (\<lambda>v. xround6 (val v)) (cout (main A f0 junk [prog, method]) ! k) \<and>
         (xround6 v = xround6 w \<longrightarrow> ostream_double v = ostream_double w)"
proof -
  have line: "cout (main A f0 junk [prog, method]) ! k =
      show_line k A (objects_after 0 (Suc k) method junk A (initial_objects A f0))"
    using assms(2) by (simp add: cout_main [OF assms(1)] number_steps_eq del: objects_after.simps)
  have "ostream_double v = ostream_double w" if "xround6 v = xround6 w"
    using ostream_double_xround6 [of v] ostream_double_xround6 [of w] that by simp
  then show ?thesis
    by (simp add: line render_xround6 Let_def del: objects_after.simps)
       (simp add: render_def show_line_def TAB_def del: objects_after.simps)
qed

theorem default_format_witness:
  "(METHOD_NAIVE = METHOD_NAIVE \<or> METHOD_NAIVE = METHOD_SYMPLECTIC) \<and> (0::nat) < 8760 \<and>
   render xvalue (cout (main xarith (Vec2 NaN NaN) nan_junk [''Integration'', METHOD_NAIVE]) ! 0) =
     ''0'' @ [CHR 0x09] @ ''0'' @ [CHR 0x09] @ ''-45000'' @ [CHR 0x09] @ ''3.84405e+08'' @
     [CHR 0x09] @ ''3.6792e+06'' @ [CHR 0x09] @ ''3.84423e+08'' @ [CHR 0x0A] \<and>
   xround6 (Fin (sqrt 147781073690640000)) = xround6 (Fin 384423000) \<and>
   ostream_double (Fin (sqrt 147781073690640000)) = ostream_double (Fin 384423000)"
proof -
  have m: "METHOD_NAIVE = METHOD_NAIVE \<or> METHOD_NAIVE = METHOD_SYMPLECTIC"
    by simp
  have k: "(0::nat) < 8760"
    by simp
  let ?objects = "fst (step_body 0 METHOD_NAIVE nan_junk xarith
      (initial_objects xarith (Vec2 NaN NaN)))"
  have p0: "position (?objects ! 0) = Vec2 (Fin 0) (Fin (- 45000))"
    using arg_cong [OF initial_step_naive [of nan_junk "Vec2 NaN NaN"], of "\<lambda>xs. xs ! 0"]
    by simp
  have p1: "position (?objects ! Suc 0) = Vec2 (Fin 384405000) (Fin 3679200)"
    using arg_cong [OF initial_step_naive [of nan_junk "Vec2 NaN NaN"], of "\<lambda>xs. xs ! 1"]
    by simp
  have t: "xvalue (dmul xarith (dof_int xarith 0) (delta_time xarith)) = Fin 0"
    by (simp add: xvalue_def xarith_simps)
  have d: "xvalue (glm_distance xarith (Vec2 (Fin 0) (Fin (- 45000)))
      (Vec2 (Fin 384405000) (Fin 3679200))) = Fin (sqrt 147781073690640000)"
    by (simp add: xvalue_def xarith_simps)
  have x: "xvalue (Fin a) = Fin a" for a
    by (simp add: xvalue_def)
  have r: "xround6 (Fin (sqrt 147781073690640000)) = xround6 (Fin 384423000)"
    by (simp add: round6_distance round6_384423000)
  note run = default_format [OF m k, of xvalue xarith "Vec2 NaN NaN" nan_junk "''Integration''"
      "Fin (sqrt 147781073690640000)" "Fin 384423000"]
  from run [THEN conjunct2, THEN conjunct2, rule_format, OF r]
  have same: "ostream_double (Fin (sqrt 147781073690640000)) = ostream_double (Fin 384423000)" .
  from run [THEN conjunct1]
  have "render xvalue
      (cout (main xarith (Vec2 NaN NaN) nan_junk [''Integration'', METHOD_NAIVE]) ! 0) =
     ''0'' @ [CHR 0x09] @ ''0'' @ [CHR 0x09] @ ''-45000'' @ [CHR 0x09] @ ''3.84405e+08'' @
     [CHR 0x09] @ ''3.6792e+06'' @ [CHR 0x09] @ ''3.84423e+08'' @ [CHR 0x0A]"
    by (simp add: Let_def p0 p1 t d x format_g_values format_g_distance)
  with m k r same show ?thesis
    by simp
qed

section \<open>Determinism\<close>

text \<open>
  Claim C7. Two runs with the same bodies, the same arithmetic and constants, and the same
  method emit the same records. What may differ between two runs of the program is the
  content of uninitialised memory (\<open>junk\<close>, and the initial \<open>force\<close> fields \<open>f0\<close> in \<open>main\<close>)
  and the name of the program in \<open>argv[0]\<close>: the output does not depend on them.
\<close>

theorem deterministic_output:
  "(method = METHOD_NAIVE \<or> method = METHOD_SYMPLECTIC \<longrightarrow>
      snd (main_loop 0 method junk A objects []) = snd (main_loop 0 method junk' A objects [])) \<and>
   main A f0 junk [prog, method] = main A f0' junk' [prog', method]"
  using main_loop_out_junk [of "method" junk A objects junk']
    main_junk [of A f0 junk prog "method" f0' junk' prog']
  by blast

theorem deterministic_output_witness:
  "(METHOD_NAIVE = METHOD_NAIVE \<or> METHOD_NAIVE = METHOD_SYMPLECTIC) \<and>
   snd (main_loop 0 METHOD_NAIVE nan_junk xarith sample_objects []) =
     snd (main_loop 0 METHOD_NAIVE zero_junk xarith sample_objects []) \<and>
   main xarith (Vec2 NaN NaN) nan_junk [''Integration'', METHOD_NAIVE] =
     main xarith (Vec2 (Fin 0) (Fin 0)) zero_junk [''build/Integration'', METHOD_NAIVE]"
  using deterministic_output [of METHOD_NAIVE nan_junk xarith sample_objects zero_junk
      "Vec2 NaN NaN" "''Integration''" "Vec2 (Fin 0) (Fin 0)" "''build/Integration''"]
  by simp

section \<open>Forces before integration\<close>

text \<open>
  Claim C8. The gravity loop changes no position, velocity or mass, so every force of a
  step is computed from the positions the bodies had when the step began, and it ends
  before the first body is integrated. Given these forces, the result of the step does
  not depend on the order in which the bodies are integrated: integrating the bodies in
  any order \<open>idx\<close> that visits every index once gives the bodies of the step.
\<close>

theorem forces_before_integration:
  assumes "distinct idx" and "set idx = {0..<length objects}"
  shows "map position (compute_forces A objects) = map position objects \<and>
         map velocity (compute_forces A objects) = map velocity objects \<and>
         map mass (compute_forces A objects) = map mass objects \<and>
         fst (step_body step method junk A objects) =
           fold (integrate_at method (junk step) A) idx (compute_forces A objects)"
proof -
  have "set idx = {0..<length (compute_forces A objects)}"
    using assms(2) by simp
  then have "integrate_loop 0 method (junk step) A (compute_forces A objects) =
      fold (integrate_at method (junk step) A) idx (compute_forces A objects)"
    using assms(1) by (rule integrate_loop_fold [rotated])
  then show ?thesis
    by (simp add: step_body_fst compute_forces_keeps)
qed

theorem forces_before_integration_witness:
  "distinct [1, 0 :: nat] \<and> set [1, 0] = {0..<length sample_objects} \<and>
   map position (compute_forces xarith sample_objects) =
     [Vec2 (Fin 0) (Fin 0), Vec2 (Fin 2) (Fin 0)] \<and>
   fold (integrate_at METHOD_SYMPLECTIC (nan_junk 0) xarith) [1, 0]
       (compute_forces xarith sample_objects) =
     fold (integrate_at METHOD_SYMPLECTIC (nan_junk 0) xarith) [0, 1]
       (compute_forces xarith sample_objects) \<and>
   fst (step_body 0 METHOD_SYMPLECTIC nan_junk xarith sample_objects) =
     fold (integrate_at METHOD_SYMPLECTIC (nan_junk 0) xarith) [1, 0]
       (compute_forces xarith sample_objects)"
proof -
  have a: "distinct [1, 0 :: nat]" and b: "distinct [0, 1 :: nat]"
    by simp_all
  have c: "set [1, 0] = {0..<length sample_objects}"
      and d: "set [0, 1] = {0..<length sample_objects}"
    by (auto simp: sample_objects_def)
  have p: "map position sample_objects = [Vec2 (Fin 0) (Fin 0), Vec2 (Fin 2) (Fin 0)]"
    by (simp add: sample_objects_def)
  from forces_before_integration [OF a c, of xarith 0 METHOD_SYMPLECTIC nan_junk]
    forces_before_integration [OF b d, of xarith 0 METHOD_SYMPLECTIC nan_junk] a c p
  show ?thesis
    by (simp only: simp_thms)
qed

section \<open>The position is always assigned\<close>

text \<open>
  Claim C10. When the method is \<open>naive\<close> or \<open>symplectic\<close>, exactly one of the two tests of
  lines 78 and 82 holds, so one of the two branches assigns \<open>new_position\<close>: to the old
  position plus \<open>delta_time\<close> times the old velocity (naive) or the new velocity
  (symplectic). The content of an unassigned \<open>new_position\<close> never reaches a body.
  The checks of \<open>main\<close> guarantee the condition: a run that ends with status 0 had two
  arguments and one of the two methods.
\<close>

theorem new_position_assigned:
  assumes "method = METHOD_NAIVE \<or> method = METHOD_SYMPLECTIC"
  shows "(method = METHOD_NAIVE) \<noteq> (method = METHOD_SYMPLECTIC) \<and>
         assign_new_position method A obj old_velocity new_velocity =
           Some (vadd A (position obj)
                  (vscale A (if method = METHOD_NAIVE then old_velocity else new_velocity)
                     (delta_time A))) \<and>
         integrate_object method junk A obj = integrate_object method junk' A obj \<and>
         (exit_status (main A f0 junks argv) = 0 \<longrightarrow>
            length argv = 2 \<and> (argv ! 1 = METHOD_NAIVE \<or> argv ! 1 = METHOD_SYMPLECTIC))"
proof -
  have "exit_status (main A f0 junks argv) = 0 \<longrightarrow>
      length argv = 2 \<and> (argv ! 1 = METHOD_NAIVE \<or> argv ! 1 = METHOD_SYMPLECTIC)"
    by (auto simp: main_def Let_def split: if_splits)
  moreover have "(method = METHOD_NAIVE) \<noteq> (method = METHOD_SYMPLECTIC)"
    using assms by (auto simp: METHOD_NAIVE_def METHOD_SYMPLECTIC_def)
  moreover have "assign_new_position method A obj old_velocity new_velocity =
      Some (vadd A (position obj)
        (vscale A (if method = METHOD_NAIVE then old_velocity else new_velocity) (delta_time A)))"
    using assms by (auto simp: assign_new_position_def)
  ultimately show ?thesis
    using integrate_object_junk [OF assms, of junk A obj junk'] by simp
qed

theorem new_position_assigned_witness:
  "(METHOD_SYMPLECTIC = METHOD_NAIVE \<or> METHOD_SYMPLECTIC = METHOD_SYMPLECTIC) \<and>
   METHOD_SYMPLECTIC \<noteq> METHOD_NAIVE \<and>
   assign_new_position METHOD_SYMPLECTIC xarith (sample_objects ! 0)
       (Vec2 (Fin 0) (Fin 1)) (Vec2 (Fin 6006600) (Fin 1)) =
     Some (Vec2 (Fin 21623760000) (Fin 3600)) \<and>
   integrate_object METHOD_SYMPLECTIC (Vec2 NaN NaN) xarith (sample_objects ! 0) =
     integrate_object METHOD_SYMPLECTIC (Vec2 (Fin 0) (Fin 0)) xarith (sample_objects ! 0) \<and>
   exit_status (main xarith (Vec2 NaN NaN) nan_junk [''Integration'', METHOD_SYMPLECTIC]) = 0"
proof -
  have m: "METHOD_SYMPLECTIC = METHOD_NAIVE \<or> METHOD_SYMPLECTIC = METHOD_SYMPLECTIC"
    by simp
  have run: "exit_status (main xarith (Vec2 NaN NaN) nan_junk [''Integration'', METHOD_SYMPLECTIC]) = 0"
    by (simp add: main_def)
  show ?thesis
    using new_position_assigned [OF m, of xarith "sample_objects ! 0" "Vec2 (Fin 0) (Fin 1)"
        "Vec2 (Fin 6006600) (Fin 1)" "Vec2 NaN NaN" "Vec2 (Fin 0) (Fin 0)" "Vec2 NaN NaN" nan_junk
        "[''Integration'', METHOD_SYMPLECTIC]"] run
    by (simp add: sample_objects_def xarith_simps)
qed

end
